theory Spec2Isabelle
  imports Main
begin

section \<open>The syntax tree\<close>

text \<open>
  \<^verbatim>\<open>cmd/grob/main.go\<close> registers a new application or module by parsing a generated
  Go file with \<^verbatim>\<open>go/parser\<close>, walking the tree twice with \<^verbatim>\<open>ast.Inspect\<close>, printing
  it with \<^verbatim>\<open>go/format\<close> and writing the file back. The tree below has one constructor
  for each \<^verbatim>\<open>go/ast\<close> node type that the callbacks test or build; every other node type
  is \<open>Other\<close>, with a tag and its children in the order \<^verbatim>\<open>ast.Walk\<close> visits them.
  \<^verbatim>\<open>SelectorExpr.Sel\<close>, \<^verbatim>\<open>ImportSpec.Name\<close> and \<^verbatim>\<open>File.Name\<close> are identifiers that the walk
  visits as leaves and no callback matches; they are kept as their names. Positions and
  comment groups live in the \<^verbatim>\<open>token.FileSet\<close> and in fields that this code neither reads
  nor writes. \<^verbatim>\<open>token.TYPE\<close> is written \<open>TYPEDECL\<close>.
\<close>

datatype token = IMPORT | CONST | TYPEDECL | VAR | INT | FLOAT | IMAG | CHAR | STRING

datatype node =
    Ident string
  | BasicLit token string
  | SelectorExpr node string
  | CallExpr node "node list"
  | CompositeLit "node option" "node list"
  | MapType node node
  | KeyValueExpr node node
  | ImportSpec "string option" node
  | GenDecl token "node list"
  | File string "node list"
  | Other string "node list"

section \<open>ast.Inspect with a mutating callback\<close>

text \<open>
  \<^verbatim>\<open>ast.Inspect(node, f)\<close> calls \<open>f\<close> on a node and, when \<open>f\<close> returns true, on its
  children in turn (\<^verbatim>\<open>ast.Walk\<close>); when \<open>f\<close> returns false the children of that node are
  skipped and the walk goes on with the next sibling. All four callbacks of the source
  have the shape
  \<^verbatim>\<open>if <test n> { <mutate n>; return false }; return true\<close>,
  so a callback is a test \<open>f\<close> and an edit \<open>g\<close>, and the tree after the walk is
  \<open>Inspect f g n\<close>.
\<close>

fun Inspect :: "(node \<Rightarrow> bool) \<Rightarrow> (node \<Rightarrow> node) \<Rightarrow> node \<Rightarrow> node"
  and Walk :: "(node \<Rightarrow> bool) \<Rightarrow> (node \<Rightarrow> node) \<Rightarrow> node \<Rightarrow> node" where
  "Inspect f g n = (if f n then g n else Walk f g n)"
| "Walk f g (Ident x) = Ident x"
| "Walk f g (BasicLit k v) = BasicLit k v"
| "Walk f g (SelectorExpr x sel) = SelectorExpr (Inspect f g x) sel"
| "Walk f g (CallExpr fn args) = CallExpr (Inspect f g fn) (map (Inspect f g) args)"
| "Walk f g (CompositeLit t elts) =
     CompositeLit (map_option (Inspect f g) t) (map (Inspect f g) elts)"
| "Walk f g (MapType k v) = MapType (Inspect f g k) (Inspect f g v)"
| "Walk f g (KeyValueExpr k v) = KeyValueExpr (Inspect f g k) (Inspect f g v)"
| "Walk f g (ImportSpec nm p) = ImportSpec nm (Inspect f g p)"
| "Walk f g (GenDecl tok specs) = GenDecl tok (map (Inspect f g) specs)"
| "Walk f g (File nm decls) = File nm (map (Inspect f g) decls)"
| "Walk f g (Other k cs) = Other k (map (Inspect f g) cs)"

text \<open>
  The nodes on which the callback is called, in call order: a node, and its children
  unless the test holds for it.
\<close>

fun calls :: "(node \<Rightarrow> bool) \<Rightarrow> node \<Rightarrow> node list"
  and below :: "(node \<Rightarrow> bool) \<Rightarrow> node \<Rightarrow> node list" where
  "calls f n = n # (if f n then [] else below f n)"
| "below f (Ident x) = []"
| "below f (BasicLit k v) = []"
| "below f (SelectorExpr x sel) = calls f x"
| "below f (CallExpr fn args) = calls f fn @ concat (map (calls f) args)"
| "below f (CompositeLit t elts) =
     (case t of None \<Rightarrow> [] | Some ty \<Rightarrow> calls f ty) @ concat (map (calls f) elts)"
| "below f (MapType k v) = calls f k @ calls f v"
| "below f (KeyValueExpr k v) = calls f k @ calls f v"
| "below f (ImportSpec nm p) = calls f p"
| "below f (GenDecl tok specs) = concat (map (calls f) specs)"
| "below f (File nm decls) = concat (map (calls f) decls)"
| "below f (Other k cs) = concat (map (calls f) cs)"

text \<open>The nodes the callback edits: those it is called on and whose test holds.\<close>

definition edited :: "(node \<Rightarrow> bool) \<Rightarrow> node \<Rightarrow> node list" where
  "edited f n = filter f (calls f n)"

text \<open>
  The specification's Anchor Locator: the whole tree in pre-order, depth first (a walk
  whose callback always returns true), and the first node of it that a pattern matches.
\<close>

definition preorder :: "node \<Rightarrow> node list" where
  "preorder n = calls (\<lambda>_. False) n"

definition first_match :: "(node \<Rightarrow> bool) \<Rightarrow> node \<Rightarrow> node option" where
  "first_match f n = find f (preorder n)"

text \<open>What is left of a tree when every edited node is cut out.\<close>

definition hole :: node where
  "hole = Other ''hole'' []"

definition outside :: "(node \<Rightarrow> bool) \<Rightarrow> node \<Rightarrow> node" where
  "outside f n = Inspect f (\<lambda>_. hole) n"

section \<open>The callbacks\<close>

text \<open>\<^verbatim>\<open>if gd, ok := n.(*ast.GenDecl); ok && gd.Tok == token.IMPORT\<close>\<close>

fun isImportDecl :: "node \<Rightarrow> bool" where
  "isImportDecl (GenDecl tok specs) = (tok = IMPORT)"
| "isImportDecl _ = False"

text \<open>\<^verbatim>\<open>gd.Specs = append(gd.Specs, newImport)\<close>\<close>

fun appendSpec :: "node \<Rightarrow> node \<Rightarrow> node" where
  "appendSpec s (GenDecl tok specs) = GenDecl tok (specs @ [s])"
| "appendSpec s n = n"

text \<open>
  \<^verbatim>\<open>cl, ok := n.(*ast.CompositeLit)\<close>, \<^verbatim>\<open>kv, ok := cl.Type.(*ast.MapType)\<close>,
  \<^verbatim>\<open>ident, ok := kv.Key.(*ast.Ident); ok && ident.Name == "string"\<close>
\<close>

fun isStringMapLit :: "node \<Rightarrow> bool" where
  "isStringMapLit (CompositeLit (Some (MapType (Ident k) v)) elts) = (k = ''string'')"
| "isStringMapLit _ = False"

text \<open>\<^verbatim>\<open>cl.Elts = append(cl.Elts, newAppEntry)\<close>\<close>

fun appendElt :: "node \<Rightarrow> node \<Rightarrow> node" where
  "appendElt x (CompositeLit t elts) = CompositeLit t (elts @ [x])"
| "appendElt x n = n"

text \<open>
  \<^verbatim>\<open>ce, ok := n.(*ast.CallExpr)\<close>, \<^verbatim>\<open>se, ok := ce.Fun.(*ast.SelectorExpr)\<close>,
  \<^verbatim>\<open>x, ok := se.X.(*ast.Ident); ok && x.Name == "core" && se.Sel.Name == "New"\<close>
\<close>

fun isCoreNew :: "node \<Rightarrow> bool" where
  "isCoreNew (CallExpr (SelectorExpr (Ident x) sel) args) = (x = ''core'' \<and> sel = ''New'')"
| "isCoreNew _ = False"

text \<open>\<^verbatim>\<open>ce.Args = append(ce.Args, newModuleEntry)\<close>\<close>

fun appendArg :: "node \<Rightarrow> node \<Rightarrow> node" where
  "appendArg a (CallExpr fn args) = CallExpr fn (args @ [a])"
| "appendArg a n = n"

text \<open>The three edits: each appends one node \<open>y\<close> to a list of the node it is given.\<close>

abbreviation is_append :: "(node \<Rightarrow> node) \<Rightarrow> node \<Rightarrow> bool" where
  "is_append g y \<equiv> (g = appendSpec y \<or> g = appendElt y \<or> g = appendArg y)"

text \<open>The nodes the callbacks build. \<open>dq\<close> is the double quote of the format strings.\<close>

definition dq :: string where
  "dq = [CHR 0x22]"

definition appImport :: "string \<Rightarrow> string \<Rightarrow> node" where
  "appImport projectName appName =
     ImportSpec None (BasicLit STRING (dq @ projectName @ ''/internal/'' @ appName @ dq))"

definition newAppEntry :: "string \<Rightarrow> node" where
  "newAppEntry appName =
     KeyValueExpr (BasicLit STRING (dq @ appName @ dq))
       (CompositeLit (Some (SelectorExpr (Ident appName) ''App'')) [])"

definition moduleImport :: "string \<Rightarrow> string \<Rightarrow> string \<Rightarrow> node" where
  "moduleImport projectName appName moduleName =
     ImportSpec (Some moduleName)
       (BasicLit STRING
          (dq @ projectName @ ''/internal/'' @ appName @ ''/'' @ moduleName @ dq))"

text \<open>
  \<^verbatim>\<open>strings.Title\<close> belongs to the Go library; it is the parameter \<open>title\<close>.
\<close>

definition newModuleEntry :: "(string \<Rightarrow> string) \<Rightarrow> string \<Rightarrow> node" where
  "newModuleEntry title moduleName =
     CompositeLit (Some (SelectorExpr (Ident moduleName) (title moduleName @ ''Module''))) []"

section \<open>The two registration runs\<close>

text \<open>
  The four calls of \<^verbatim>\<open>ast.Inspect\<close>: the import walk and the registry walk of
  \<^verbatim>\<open>addAppToInternalMain\<close>, the import walk and the call walk of \<^verbatim>\<open>addModuleToAppMain\<close>.
\<close>

definition appImportWalk :: "string \<Rightarrow> string \<Rightarrow> node \<Rightarrow> node" where
  "appImportWalk projectName appName node =
     Inspect isImportDecl (appendSpec (appImport projectName appName)) node"

definition appEntryWalk :: "string \<Rightarrow> node \<Rightarrow> node" where
  "appEntryWalk appName node =
     Inspect isStringMapLit (appendElt (newAppEntry appName)) node"

definition moduleImportWalk :: "string \<Rightarrow> string \<Rightarrow> string \<Rightarrow> node \<Rightarrow> node" where
  "moduleImportWalk projectName appName moduleName node =
     Inspect isImportDecl (appendSpec (moduleImport projectName appName moduleName)) node"

definition moduleCallWalk :: "(string \<Rightarrow> string) \<Rightarrow> string \<Rightarrow> node \<Rightarrow> node" where
  "moduleCallWalk title moduleName node =
     Inspect isCoreNew (appendArg (newModuleEntry title moduleName)) node"

text \<open>The tree a run hands to the printer: the second walk runs on the result of the first.\<close>

definition addApp_walks :: "string \<Rightarrow> string \<Rightarrow> node \<Rightarrow> node" where
  "addApp_walks projectName appName node =
     appEntryWalk appName (appImportWalk projectName appName node)"

definition addModule_walks ::
  "(string \<Rightarrow> string) \<Rightarrow> string \<Rightarrow> string \<Rightarrow> string \<Rightarrow> node \<Rightarrow> node" where
  "addModule_walks title projectName appName moduleName node =
     moduleCallWalk title moduleName (moduleImportWalk projectName appName moduleName node)"

text \<open>
  The Go library and the operating system are parameters of the runs:
  \<^verbatim>\<open>parser.ParseFile(fset, path, nil, parser.ParseComments)\<close> reads the file at \<open>path\<close>
  and answers an error or the tree together with the file set it filled (\<open>'p\<close>);
  \<^verbatim>\<open>format.Node(&buf, fset, node)\<close> answers an error or the bytes of the buffer;
  \<^verbatim>\<open>os.WriteFile(path, data, 0644)\<close> answers an error or nil and leaves a disk behind.
\<close>

datatype error = PathError string | ParseError nat string | FormatError string

type_synonym disk = "string \<rightharpoonup> string"

record 'p golib =
  ParseFile :: "disk \<Rightarrow> string \<Rightarrow> error + ('p \<times> node)"
  format_Node :: "'p \<Rightarrow> node \<Rightarrow> error + string"
  WriteFile :: "string \<Rightarrow> string \<Rightarrow> disk \<Rightarrow> error option \<times> disk"
  Title :: "string \<Rightarrow> string"

text \<open>The world of a run: the disk, and the calls of \<^verbatim>\<open>os.WriteFile\<close> made so far.\<close>

record world =
  files :: disk
  writes :: "(string \<times> string) list"

definition os_WriteFile ::
  "'p golib \<Rightarrow> string \<Rightarrow> string \<Rightarrow> world \<Rightarrow> error option \<times> world" where
  "os_WriteFile lib path data w =
     (case WriteFile lib path data (files w) of
        (r, d) \<Rightarrow> (r, \<lparr>files = d, writes = writes w @ [(path, data)]\<rparr>))"

definition addAppToInternalMain ::
  "'p golib \<Rightarrow> string \<Rightarrow> string \<Rightarrow> string \<Rightarrow> world \<Rightarrow> error option \<times> world" where
  "addAppToInternalMain lib path projectName appName w =
     (case ParseFile lib (files w) path of
        Inl err \<Rightarrow> (Some err, w)
      | Inr (fset, node) \<Rightarrow>
          (case format_Node lib fset (addApp_walks projectName appName node) of
             Inl err \<Rightarrow> (Some err, w)
           | Inr buf \<Rightarrow> os_WriteFile lib path buf w))"

definition addModuleToAppMain ::
  "'p golib \<Rightarrow> string \<Rightarrow> string \<Rightarrow> string \<Rightarrow> string \<Rightarrow> world \<Rightarrow> error option \<times> world" where
  "addModuleToAppMain lib path projectName appName moduleName w =
     (case ParseFile lib (files w) path of
        Inl err \<Rightarrow> (Some err, w)
      | Inr (fset, node) \<Rightarrow>
          (case format_Node lib fset
                  (addModule_walks (Title lib) projectName appName moduleName node) of
             Inl err \<Rightarrow> (Some err, w)
           | Inr buf \<Rightarrow> os_WriteFile lib path buf w))"

section \<open>The project name\<close>

text \<open>
  \<^verbatim>\<open>strings.Split(s, sep)\<close> for a separator of one byte: the pieces of \<open>s\<close> between
  the occurrences of \<open>sep\<close>, one more than there are occurrences.
\<close>

fun Split :: "string \<Rightarrow> char \<Rightarrow> string list" where
  "Split [] sep = [[]]"
| "Split (c # cs) sep =
     (if c = sep then [] # Split cs sep
      else (case Split cs sep of [] \<Rightarrow> [[c]] | x # xs \<Rightarrow> (c # x) # xs))"








section \<open>Example files\<close>

text \<open>
  Small Go files and their trees, for evaluating the definitions. \<open>table_lib\<close> stands in
  for the Go library on them: it parses the texts listed in its first table, prints the
  trees listed in its second, writes every file it is asked to, and takes
  \<^verbatim>\<open>strings.Title\<close> from its third.
\<close>

definition unlines :: "string list \<Rightarrow> string" where
  "unlines ls = concat (map (\<lambda>l. l @ [CHR 0x0A]) ls)"

definition tab :: "string \<Rightarrow> string" where
  "tab l = CHR 0x09 # l"

definition table_lib ::
  "(string \<times> node) list \<Rightarrow> (node \<times> string) list \<Rightarrow> (string \<times> string) list \<Rightarrow> unit golib" where
  "table_lib parsed printed titles =
     \<lparr>ParseFile = (\<lambda>d path.
        case d path of
          None \<Rightarrow> Inl (PathError path)
        | Some src \<Rightarrow>
            (case map_of parsed src of
               None \<Rightarrow> Inl (ParseError 1 ''syntax error'')
             | Some n \<Rightarrow> Inr ((), n))),
      format_Node = (\<lambda>fset n.
        case map_of printed n of
          None \<Rightarrow> Inl (FormatError ''no text'')
        | Some s \<Rightarrow> Inr s),
      WriteFile = (\<lambda>path data d. (None, d(path \<mapsto> data))),
      Title = (\<lambda>s. case map_of titles s of None \<Rightarrow> s | Some t \<Rightarrow> t)\<rparr>"

definition on_disk :: "string \<Rightarrow> string \<Rightarrow> world" where
  "on_disk path src = \<lparr>files = [path \<mapsto> src], writes = []\<rparr>"

definition import_of :: "string \<Rightarrow> node" where
  "import_of p = ImportSpec None (BasicLit STRING (dq @ p @ dq))"

definition func_decl :: "string \<Rightarrow> node list \<Rightarrow> node" where
  "func_decl name stmts =
     Other ''FuncDecl''
       [Ident name, Other ''FuncType'' [Other ''FieldList'' []], Other ''BlockStmt'' stmts]"

definition core_New :: "node list \<Rightarrow> node" where
  "core_New args = CallExpr (SelectorExpr (Ident ''core'') ''New'') args"

definition string_map :: "string \<Rightarrow> node list \<Rightarrow> node" where
  "string_map v elts = CompositeLit (Some (MapType (Ident ''string'') (Ident v))) elts"

text \<open>An application file with the import group and the call \<^verbatim>\<open>core.New()\<close>.\<close>

definition shop_src :: string where
  \<open>shop_src = unlines
     [''package shop'', [],
      ''import ('', tab ''"store/internal/shop/core"'', '')'', [],
      ''func Run() {'', tab ''core.New()'', ''}'']\<close>

definition shop_tree :: node where
  "shop_tree =
     File ''shop''
       [GenDecl IMPORT [import_of ''store/internal/shop/core''],
        func_decl ''Run'' [Other ''ExprStmt'' [core_New []]]]"

definition shop_after :: node where
  "shop_after =
     File ''shop''
       [GenDecl IMPORT
          [import_of ''store/internal/shop/core'',
           ImportSpec (Some ''orders'')
             (BasicLit STRING (dq @ ''store/internal/shop/orders'' @ dq))],
        func_decl ''Run''
          [Other ''ExprStmt''
             [core_New [CompositeLit (Some (SelectorExpr (Ident ''orders'') ''OrdersModule'')) []]]]]"

text \<open>An application file edited by hand: the import group is there, the call is not.\<close>

definition nocall_src :: string where
  \<open>nocall_src = unlines
     [''package shop'', [],
      ''import ('', tab ''"store/internal/shop/core"'', '')'', [],
      ''type App struct{}'']\<close>

definition nocall_tree :: node where
  "nocall_tree =
     File ''shop''
       [GenDecl IMPORT [import_of ''store/internal/shop/core''],
        GenDecl TYPEDECL
          [Other ''TypeSpec'' [Ident ''App'', Other ''StructType'' [Other ''FieldList'' []]]]]"

definition nocall_after :: node where
  "nocall_after =
     File ''shop''
       [GenDecl IMPORT
          [import_of ''store/internal/shop/core'',
           ImportSpec (Some ''orders'')
             (BasicLit STRING (dq @ ''store/internal/shop/orders'' @ dq))],
        GenDecl TYPEDECL
          [Other ''TypeSpec'' [Ident ''App'', Other ''StructType'' [Other ''FieldList'' []]]]]"

definition nocall_out :: string where
  \<open>nocall_out = unlines
     [''package shop'', [],
      ''import ('', tab ''"store/internal/shop/core"'',
      tab ''orders "store/internal/shop/orders"'', '')'', [],
      ''type App struct{}'']\<close>

text \<open>A top-level file with the import group and no registry.\<close>

definition nomap_src :: string where
  \<open>nomap_src = unlines
     [''package main'', [],
      ''import ('', tab ''"log"'', '')'', [],
      ''func main() {'', tab ''log.Println()'', ''}'']\<close>

definition nomap_tree :: node where
  "nomap_tree =
     File ''main''
       [GenDecl IMPORT [import_of ''log''],
        func_decl ''main''
          [Other ''ExprStmt'' [CallExpr (SelectorExpr (Ident ''log'') ''Println'') []]]]"

definition nomap_after :: node where
  "nomap_after =
     File ''main''
       [GenDecl IMPORT [import_of ''log'', import_of ''store/internal/auth''],
        func_decl ''main''
          [Other ''ExprStmt'' [CallExpr (SelectorExpr (Ident ''log'') ''Println'') []]]]"

definition nomap_out :: string where
  \<open>nomap_out = unlines
     [''package main'', [],
      ''import ('', tab ''"log"'', tab ''"store/internal/auth"'', '')'', [],
      ''func main() {'', tab ''log.Println()'', ''}'']\<close>

text \<open>A top-level file with the import group and the registry.\<close>

definition apps_src :: string where
  \<open>apps_src = unlines
     [''package main'', [],
      ''import ('', tab ''"log"'', '')'', [],
      ''func main() {'', tab ''apps := map[string]AppRunner{}'',
      tab ''log.Println(len(apps))'', ''}'']\<close>

definition apps_body :: "node list \<Rightarrow> node" where
  "apps_body elts =
     func_decl ''main''
       [Other ''AssignStmt'' [Ident ''apps'', string_map ''AppRunner'' elts],
        Other ''ExprStmt''
          [CallExpr (SelectorExpr (Ident ''log'') ''Println'')
             [CallExpr (Ident ''len'') [Ident ''apps'']]]]"

definition apps_tree :: node where
  "apps_tree = File ''main'' [GenDecl IMPORT [import_of ''log''], apps_body []]"

definition apps_after :: node where
  "apps_after =
     File ''main''
       [GenDecl IMPORT [import_of ''log'', import_of ''store/internal/auth''],
        apps_body
          [KeyValueExpr (BasicLit STRING (dq @ ''auth'' @ dq))
             (CompositeLit (Some (SelectorExpr (Ident ''auth'') ''App'')) [])]]"

definition apps_out :: string where
  \<open>apps_out = unlines
     [''package main'', [],
      ''import ('', tab ''"log"'', tab ''"store/internal/auth"'', '')'', [],
      ''func main() {'', tab ''apps := map[string]AppRunner{"auth": auth.App{}}'',
      tab ''log.Println(len(apps))'', ''}'']\<close>

text \<open>Files with two candidates for one pattern.\<close>

definition two_imports :: node where
  "two_imports =
     File ''main'' [GenDecl IMPORT [import_of ''fmt''], GenDecl IMPORT [import_of ''os'']]"

definition two_maps :: node where
  "two_maps =
     File ''main''
       [GenDecl VAR
          [Other ''ValueSpec'' [Ident ''apps'', string_map ''AppRunner'' []],
           Other ''ValueSpec'' [Ident ''ports'', string_map ''int'' []]]]"

text \<open>A call of \<^verbatim>\<open>core.New\<close> among the arguments of another, and a file that does not parse.\<close>

definition nested_calls :: node where
  "nested_calls = Other ''ExprStmt'' [core_New [core_New []]]"

definition broken_src :: string where
  "broken_src = unlines [''package shop'', [], ''import ('']"

definition lib0 :: "unit golib" where
  "lib0 = table_lib
     [(shop_src, shop_tree), (nocall_src, nocall_tree), (nomap_src, nomap_tree),
      (apps_src, apps_tree)]
     [(nocall_after, nocall_out), (nomap_after, nomap_out), (apps_after, apps_out)]
     [(''orders'', ''Orders''), (''billing'', ''Billing''), (''shipping'', ''Shipping'')]"

text \<open>The same for the application file alone, with the text of its tree after a run.\<close>

definition shop_out :: string where
  \<open>shop_out = unlines
     [''package shop'', [],
      ''import ('', tab ''"store/internal/shop/core"'',
      tab ''orders "store/internal/shop/orders"'', '')'', [],
      ''func Run() {'', tab ''core.New(orders.OrdersModule{})'', ''}'']\<close>

definition lib1 :: "unit golib" where
  "lib1 = table_lib [(shop_src, shop_tree)] [(shop_after, shop_out)] [(''orders'', ''Orders'')]"

section \<open>Lemmas about the walk\<close>

text \<open>
  The first match of the whole tree in pre-order is the first node the callback edits:
  the nodes a walk skips lie below a node that matched before them.
\<close>

lemma find_app: "find f (xs @ ys) = (case find f xs of None \<Rightarrow> find f ys | Some x \<Rightarrow> Some x)"
  by (induction xs) simp_all

lemma find_concat_cong:
  "(\<And>x. x \<in> set xs \<Longrightarrow> find f (h x) = find f (k x)) \<Longrightarrow>
   find f (concat (map h xs)) = find f (concat (map k xs))"
  by (induction xs) (auto simp: find_app split: option.splits)

lemma find_calls_below:
  "find f (calls (\<lambda>_. False) n) = find f (calls f n)"
  "find f (below (\<lambda>_. False) n) = find f (below f n)"
proof (induction f n and f n rule: calls_below.induct)
  case (1 f n)
  then show ?case by simp
next
  case (6 f t elts)
  then show ?case
    by (cases t) (auto simp: find_app simp del: calls.simps intro!: find_concat_cong split: option.splits)
qed (auto simp: find_app simp del: calls.simps intro!: find_concat_cong split: option.splits)

lemma find_hd_filter: "find f xs = (case filter f xs of [] \<Rightarrow> None | x # _ \<Rightarrow> Some x)"
  by (induction xs) simp_all

lemma first_match_edited:
  "first_match f n = (case edited f n of [] \<Rightarrow> None | x # _ \<Rightarrow> Some x)"
  unfolding first_match_def preorder_def edited_def find_calls_below(1) by (rule find_hd_filter)

text \<open>
  For a test \<open>f\<close> that an edit \<open>g\<close> keeps true, and that does not change when the
  nodes below are edited, the walk edits each node of \<open>edited f n\<close> in turn, leaves the
  rest of the tree alone, and is the identity when there is nothing to edit.
\<close>

lemma edited_Inspect_aux:
  assumes H1: "\<And>x. f x \<Longrightarrow> f (g x)" and H2: "\<And>x. f (Walk f g x) = f x"
  shows "filter f (calls f (Inspect f g n)) = map g (filter f (calls f n))"
    and "filter f (below f (Walk f g n)) = map g (filter f (below f n))"
  using assms
proof (induction f g n and f g n rule: Inspect_Walk.induct)
  case (1 f g n)
  show ?case
  proof (cases "f n")
    case True
    then show ?thesis using "1.prems"(1) by simp
  next
    case False
    then have "filter f (below f (Walk f g n)) = map g (filter f (below f n))"
      using 1 by blast
    then show ?thesis using False "1.prems"(2) by simp
  qed
next
  case (6 f g t elts)
  then show ?case
    by (cases t) (simp_all add: filter_concat map_concat comp_def del: calls.simps Inspect.simps cong: map_cong)
qed (simp_all add: filter_concat map_concat comp_def del: calls.simps Inspect.simps cong: map_cong)

lemma edited_Inspect:
  assumes "\<And>x. f x \<Longrightarrow> f (g x)" and "\<And>x. f (Walk f g x) = f x"
  shows "edited f (Inspect f g n) = map g (edited f n)"
  unfolding edited_def using assms by (rule edited_Inspect_aux(1))

lemma outside_Inspect_aux:
  assumes H1: "\<And>x. f x \<Longrightarrow> f (g x)" and H2: "\<And>x. f (Walk f g x) = f x"
  shows "Inspect f (\<lambda>_. c) (Inspect f g n) = Inspect f (\<lambda>_. c) n"
    and "Walk f (\<lambda>_. c) (Walk f g n) = Walk f (\<lambda>_. c) n"
  using assms
proof (induction f g n and f g n rule: Inspect_Walk.induct)
  case (1 f g n)
  show ?case
  proof (cases "f n")
    case True
    then show ?thesis using "1.prems"(1) by simp
  next
    case False
    then have "Walk f (\<lambda>_. c) (Walk f g n) = Walk f (\<lambda>_. c) n"
      using 1 by blast
    then show ?thesis using False "1.prems"(2) by simp
  qed
next
  case (6 f g t elts)
  then show ?case by (cases t) (simp_all del: Inspect.simps)
qed (simp_all del: Inspect.simps)

lemma Inspect_no_edit_aux:
  shows "filter f (calls f n) = [] \<Longrightarrow> Inspect f g n = n"
    and "filter f (below f n) = [] \<Longrightarrow> Walk f g n = n"
proof (induction f g n and f g n rule: Inspect_Walk.induct)
  case (1 f g n)
  then show ?case by (cases "f n") simp_all
next
  case (6 f g t elts)
  then show ?case
    by (cases t) (auto simp: filter_empty_conv simp del: Inspect.simps calls.simps intro!: map_idI)
qed (auto simp: filter_empty_conv simp del: Inspect.simps calls.simps intro!: map_idI)

lemma Inspect_no_edit: "edited f n = [] \<Longrightarrow> Inspect f g n = n"
  unfolding edited_def by (rule Inspect_no_edit_aux(1))

text \<open>
  The three tests look at most two levels below a node, at constructors and names that
  none of the three edits changes; so a walk never makes a test true or false.
\<close>

lemma walk_isImportDecl: "isImportDecl (Walk f g n) = isImportDecl n"
  by (cases n) simp_all

lemma Inspect_Ident: "is_append g y \<Longrightarrow> Inspect f g n = Ident x \<longleftrightarrow> n = Ident x"
  by (cases n) auto

lemma Inspect_Sel:
  assumes "is_append g y"
  shows "Inspect f g n = SelectorExpr (Ident x) sel \<longleftrightarrow> n = SelectorExpr (Ident x) sel"
proof (cases n)
  case (SelectorExpr y s)
  have "g n = n" using assms SelectorExpr by auto
  then have "Inspect f g n = (if f n then n else SelectorExpr (Inspect f g y) s)"
    using SelectorExpr by simp
  then show ?thesis using SelectorExpr Inspect_Ident [OF assms, of f y x]
    by (auto simp del: Inspect.simps)
qed (use assms in auto)

lemma Inspect_MapType:
  assumes "is_append g y"
  shows "(\<exists>v. Inspect f g n = MapType (Ident k) v) \<longleftrightarrow> (\<exists>v. n = MapType (Ident k) v)"
proof (cases n)
  case (MapType y v)
  have "g n = n" using assms MapType by auto
  then have "Inspect f g n = (if f n then n else MapType (Inspect f g y) (Inspect f g v))"
    using MapType by simp
  then show ?thesis using MapType Inspect_Ident [OF assms, of f y k]
    by (auto simp del: Inspect.simps)
qed (use assms in auto)

lemma isCoreNew_iff:
  "isCoreNew n \<longleftrightarrow> (\<exists>args. n = CallExpr (SelectorExpr (Ident ''core'') ''New'') args)"
  by (cases n rule: isCoreNew.cases) auto

lemma isStringMapLit_iff:
  "isStringMapLit n \<longleftrightarrow> (\<exists>v elts. n = CompositeLit (Some (MapType (Ident ''string'') v)) elts)"
  by (cases n rule: isStringMapLit.cases) auto

lemma walk_isCoreNew: "is_append g y \<Longrightarrow> isCoreNew (Walk f g n) = isCoreNew n"
  by (cases n) (simp_all add: isCoreNew_iff Inspect_Sel del: Inspect.simps)

lemma walk_isStringMapLit:
  assumes "is_append g y"
  shows "isStringMapLit (Walk f g n) = isStringMapLit n"
proof (cases n)
  case (CompositeLit t elts)
  show ?thesis
  proof (cases t)
    case None
    then show ?thesis using CompositeLit by (simp add: isStringMapLit_iff)
  next
    case (Some ty)
    then show ?thesis using CompositeLit Inspect_MapType [OF assms, of f ty "''string''"]
      by (simp add: isStringMapLit_iff del: Inspect.simps)
  qed
qed (simp_all add: isStringMapLit_iff)

lemma append_keeps:
  "isImportDecl n \<Longrightarrow> isImportDecl (appendSpec s n)"
  "isStringMapLit n \<Longrightarrow> isStringMapLit (appendElt e n)"
  "isCoreNew n \<Longrightarrow> isCoreNew (appendArg a n)"
  by (auto simp: isCoreNew_iff isStringMapLit_iff elim: isImportDecl.elims)

lemma first_match_Inspect:
  assumes "\<And>x. f x \<Longrightarrow> f (g x)" and "\<And>x. f (Walk f g x) = f x"
  shows "first_match f (Inspect f g n) = map_option g (first_match f n)"
  by (simp add: first_match_edited edited_Inspect [of f g, OF assms] split: list.splits del: Inspect.simps)

text \<open>
  The import walk neither adds nor removes a node that the other two tests match: the
  import it appends is a leaf with a string literal below it.
\<close>

lemma bex_preorder_Inspect_aux:
  assumes A1: "\<And>x. p (Walk f g x) = p x"
      and A2: "\<And>x. f x \<Longrightarrow> (\<exists>y\<in>set (calls (\<lambda>_. False) (g x)). p y) = (\<exists>y\<in>set (calls (\<lambda>_. False) x). p y)"
  shows "(\<exists>y\<in>set (calls (\<lambda>_. False) (Inspect f g n)). p y) = (\<exists>y\<in>set (calls (\<lambda>_. False) n). p y)"
    and "(\<exists>y\<in>set (below (\<lambda>_. False) (Walk f g n)). p y) = (\<exists>y\<in>set (below (\<lambda>_. False) n). p y)"
  using assms
proof (induction f g n and f g n rule: Inspect_Walk.induct)
  case (1 f g n)
  show ?case
  proof (cases "f n")
    case True
    then show ?thesis using "1.prems"(2) by simp
  next
    case False
    then have "(\<exists>y\<in>set (below (\<lambda>_. False) (Walk f g n)). p y) = (\<exists>y\<in>set (below (\<lambda>_. False) n). p y)"
      using 1 by blast
    then show ?thesis using False "1.prems"(1) by simp
  qed
next
  case (6 f g t elts)
  then show ?case by (cases t) (simp_all add: bex_Un del: calls.simps Inspect.simps)
qed (simp_all add: bex_Un del: calls.simps Inspect.simps)

lemma first_match_None_iff: "first_match p n = None \<longleftrightarrow> \<not> (\<exists>y\<in>set (preorder n). p y)"
  by (auto simp: first_match_def find_None_iff)

lemma no_match_in_spec:
  assumes "\<And>x. p x \<Longrightarrow> \<not> isImportDecl x" "\<not> p (ImportSpec nm (BasicLit k v))" "\<not> p (BasicLit k v)"
    and "isImportDecl x"
  shows "(\<exists>y\<in>set (calls (\<lambda>_. False) (appendSpec (ImportSpec nm (BasicLit k v)) x)). p y)
       = (\<exists>y\<in>set (calls (\<lambda>_. False) x). p y)"
proof -
  have "\<not> p (GenDecl IMPORT xs)" for xs
    using assms(1) [of "GenDecl IMPORT xs"] by auto
  then show ?thesis using assms by (cases x) auto
qed

lemma first_match_import_walk:
  assumes "p = isCoreNew \<or> p = isStringMapLit" 
  shows "first_match p (Inspect isImportDecl (appendSpec (ImportSpec nm (BasicLit k v))) n) = None
         \<longleftrightarrow> first_match p n = None"
proof -
  have a: "\<And>x. p (Walk isImportDecl (appendSpec (ImportSpec nm (BasicLit k v))) x) = p x"
    using assms walk_isCoreNew walk_isStringMapLit by blast
  have b: "\<And>x. p x \<Longrightarrow> \<not> isImportDecl x" "\<not> p (ImportSpec nm (BasicLit k v))" "\<not> p (BasicLit k v)"
    using assms by (auto simp: isCoreNew_iff isStringMapLit_iff)
  show ?thesis
    unfolding first_match_None_iff preorder_def
    using bex_preorder_Inspect_aux(1) [of p isImportDecl "appendSpec (ImportSpec nm (BasicLit k v))" n, OF a no_match_in_spec [of p, OF b]]
    by simp
qed

lemma first_match_after_import:
  "first_match isCoreNew (Inspect isImportDecl (appendSpec (ImportSpec nm (BasicLit k v))) n) = None
     \<longleftrightarrow> first_match isCoreNew n = None"
  "first_match isStringMapLit (Inspect isImportDecl (appendSpec (ImportSpec nm (BasicLit k v))) n) = None
     \<longleftrightarrow> first_match isStringMapLit n = None"
  by (rule first_match_import_walk; simp)+

lemma Inspect_changes:
  assumes "\<And>x. f x \<Longrightarrow> f (g x)" and "\<And>x. f (Walk f g x) = f x" and "\<And>x. f x \<Longrightarrow> g x \<noteq> x"
    and "first_match f n \<noteq> None"
  shows "Inspect f g n \<noteq> n"
proof
  assume eq: "Inspect f g n = n"
  obtain x where x: "first_match f n = Some x" using assms(4) by auto
  then have "f x" unfolding first_match_def by (auto simp: find_Some_iff)
  moreover have "first_match f (Inspect f g n) = Some (g x)"
    using first_match_Inspect [of f g n, OF assms(1,2)] x by simp
  ultimately have "g x = x" using eq x by simp
  then show False using assms(3) \<open>f x\<close> by blast
qed

text \<open>The facts above, for the three walks of the source.\<close>

lemma walk_keeps:
  "isStringMapLit (Walk f (appendElt y) n) = isStringMapLit n"
  "isCoreNew (Walk f (appendArg y) n) = isCoreNew n"
  "isStringMapLit (Walk f (appendSpec y) n) = isStringMapLit n"
  "isCoreNew (Walk f (appendSpec y) n) = isCoreNew n"
  using walk_isCoreNew [of _ y f n] walk_isStringMapLit [of _ y f n] by simp_all

lemma edited_walks:
  "edited isImportDecl (Inspect isImportDecl (appendSpec s) n)
     = map (appendSpec s) (edited isImportDecl n)"
  "edited isStringMapLit (Inspect isStringMapLit (appendElt e) n)
     = map (appendElt e) (edited isStringMapLit n)"
  "edited isCoreNew (Inspect isCoreNew (appendArg a) n)
     = map (appendArg a) (edited isCoreNew n)"
  by (rule edited_Inspect; simp add: append_keeps walk_keeps walk_isImportDecl)+

lemma outside_walks:
  "outside isImportDecl (Inspect isImportDecl (appendSpec s) n) = outside isImportDecl n"
  "outside isStringMapLit (Inspect isStringMapLit (appendElt e) n) = outside isStringMapLit n"
  "outside isCoreNew (Inspect isCoreNew (appendArg a) n) = outside isCoreNew n"
  unfolding outside_def
  by (rule outside_Inspect_aux(1); simp add: append_keeps walk_keeps walk_isImportDecl)+

lemma first_match_walks:
  "first_match isImportDecl (Inspect isImportDecl (appendSpec s) n)
     = map_option (appendSpec s) (first_match isImportDecl n)"
  "first_match isStringMapLit (Inspect isStringMapLit (appendElt e) n)
     = map_option (appendElt e) (first_match isStringMapLit n)"
  "first_match isCoreNew (Inspect isCoreNew (appendArg a) n)
     = map_option (appendArg a) (first_match isCoreNew n)"
  by (rule first_match_Inspect; simp add: append_keeps walk_keeps walk_isImportDecl)+

lemma append_differs:
  "isImportDecl x \<Longrightarrow> appendSpec s x \<noteq> x"
  "isStringMapLit x \<Longrightarrow> appendElt e x \<noteq> x"
  "isCoreNew x \<Longrightarrow> appendArg a x \<noteq> x"
  by (auto simp: isCoreNew_iff isStringMapLit_iff elim: isImportDecl.elims)

lemma walks_change:
  "first_match isImportDecl n \<noteq> None \<Longrightarrow> Inspect isImportDecl (appendSpec s) n \<noteq> n"
  "first_match isStringMapLit n \<noteq> None \<Longrightarrow> Inspect isStringMapLit (appendElt e) n \<noteq> n"
  "first_match isCoreNew n \<noteq> None \<Longrightarrow> Inspect isCoreNew (appendArg a) n \<noteq> n"
  by (rule Inspect_changes; simp add: append_keeps walk_keeps walk_isImportDecl append_differs)+

lemma first_match_None_Inspect: "first_match f n = None \<Longrightarrow> Inspect f g n = n"
  by (rule Inspect_no_edit) (simp add: first_match_edited split: list.splits)

lemmas walk_defs = addModule_walks_def addApp_walks_def moduleCallWalk_def moduleImportWalk_def
  appImportWalk_def appEntryWalk_def

lemmas node_defs = moduleImport_def appImport_def newAppEntry_def newModuleEntry_def
  import_of_def func_decl_def core_New_def string_map_def dq_def

lemmas text_defs = unlines_def tab_def shop_src_def nocall_src_def nocall_out_def nomap_src_def
  nomap_out_def apps_src_def apps_out_def

lemmas tree_defs = shop_tree_def nocall_tree_def nocall_after_def nomap_tree_def
  nomap_after_def apps_tree_def apps_after_def apps_body_def

lemmas run_defs = addModuleToAppMain_def addAppToInternalMain_def os_WriteFile_def lib0_def
  table_lib_def on_disk_def

section \<open>Lemmas about the project name\<close>

lemma Split_ne: "Split s sep \<noteq> []"
  by (induction s) (auto split: list.splits)








section \<open>The project name (C8)\<close>




section \<open>Appending the call argument (C4)\<close>

text \<open>
  C4: the call walk appends its argument at the end of the argument list of the located
  \<^verbatim>\<open>core.New\<close> call and keeps the arguments that were there, in order; a second walk
  appends after the first, so from \<^verbatim>\<open>core.New()\<close> one walk gives a call of one argument
  and two walks give a call of two, in the order of the walks.
\<close>

theorem appendCallArgument_at_end:
  assumes "first_match isCoreNew node = Some (CallExpr fn args)"
  shows "first_match isCoreNew (moduleCallWalk title m1 node)
           = Some (CallExpr fn (args @ [newModuleEntry title m1]))
       \<and> first_match isCoreNew (moduleCallWalk title m2 (moduleCallWalk title m1 node))
           = Some (CallExpr fn (args @ [newModuleEntry title m1, newModuleEntry title m2]))"
  using assms by (simp add: moduleCallWalk_def first_match_walks(3) del: Inspect.simps)

theorem appendCallArgument_at_end_witness:
  "first_match isCoreNew shop_tree = Some (core_New [])
   \<and> first_match isCoreNew (moduleCallWalk (Title lib0) ''billing'' shop_tree)
       = Some (core_New [CompositeLit (Some (SelectorExpr (Ident ''billing'') ''BillingModule'')) []])
   \<and> first_match isCoreNew
         (moduleCallWalk (Title lib0) ''shipping'' (moduleCallWalk (Title lib0) ''billing'' shop_tree))
       = Some (core_New
           [CompositeLit (Some (SelectorExpr (Ident ''billing'') ''BillingModule'')) [],
            CompositeLit (Some (SelectorExpr (Ident ''shipping'') ''ShippingModule'')) []])"
proof -
  have h: "first_match isCoreNew shop_tree
             = Some (CallExpr (SelectorExpr (Ident ''core'') ''New'') [])"
    by (simp add: first_match_def preorder_def shop_tree_def node_defs)
  show ?thesis
    using h appendCallArgument_at_end
      [OF h, where title = "Title lib0" and ?m1.0 = "''billing''" and ?m2.0 = "''shipping''"]
    by (simp add: node_defs lib0_def table_lib_def)
qed

section \<open>Which candidates a walk edits (C2)\<close>

text \<open>
  C2, as stated: each pattern selects exactly one node, the first match in pre-order, and
  every later candidate is left unmodified. It is not so: returning false from the
  callback of \<^verbatim>\<open>ast.Inspect\<close> skips the children of the matched node and the walk goes on
  with its siblings. In a file with two import declarations both receive the new import,
  and of two sibling map literals keyed by string both receive the new entry.
\<close>

theorem later_candidates_are_edited:
  "first_match isImportDecl two_imports = Some (GenDecl IMPORT [import_of ''fmt''])
   \<and> appImportWalk ''store'' ''auth'' two_imports =
       File ''main''
         [GenDecl IMPORT [import_of ''fmt'', import_of ''store/internal/auth''],
          GenDecl IMPORT [import_of ''os'', import_of ''store/internal/auth'']]
   \<and> first_match isStringMapLit two_maps = Some (string_map ''AppRunner'' [])
   \<and> appEntryWalk ''auth'' two_maps =
       File ''main''
         [GenDecl VAR
            [Other ''ValueSpec'' [Ident ''apps'', string_map ''AppRunner'' [newAppEntry ''auth'']],
             Other ''ValueSpec'' [Ident ''ports'', string_map ''int'' [newAppEntry ''auth'']]]]"
  by (simp add: walk_defs node_defs two_imports_def two_maps_def first_match_def preorder_def)

text \<open>
  C2, amended: each walk applies its mutation to every candidate on which the callback
  is called, that is to the first match in pre-order and to every later candidate that
  does not lie inside an earlier matched node; only candidates nested inside a matched
  node are left alone, and nothing outside the edited nodes changes. \<open>edited\<close> lists
  the edited nodes in order, \<open>outside\<close> is the tree with them cut out.
\<close>

theorem walk_edits_every_outer_candidate:
  "edited isImportDecl (Inspect isImportDecl (appendSpec s) n)
     = map (appendSpec s) (edited isImportDecl n)
   \<and> outside isImportDecl (Inspect isImportDecl (appendSpec s) n) = outside isImportDecl n
   \<and> first_match isImportDecl (Inspect isImportDecl (appendSpec s) n)
     = map_option (appendSpec s) (first_match isImportDecl n)
   \<and> edited isStringMapLit (Inspect isStringMapLit (appendElt e) n)
     = map (appendElt e) (edited isStringMapLit n)
   \<and> outside isStringMapLit (Inspect isStringMapLit (appendElt e) n) = outside isStringMapLit n
   \<and> first_match isStringMapLit (Inspect isStringMapLit (appendElt e) n)
     = map_option (appendElt e) (first_match isStringMapLit n)
   \<and> edited isCoreNew (Inspect isCoreNew (appendArg a) n)
     = map (appendArg a) (edited isCoreNew n)
   \<and> outside isCoreNew (Inspect isCoreNew (appendArg a) n) = outside isCoreNew n
   \<and> first_match isCoreNew (Inspect isCoreNew (appendArg a) n)
     = map_option (appendArg a) (first_match isCoreNew n)"
  by (simp only: edited_walks outside_walks first_match_walks)

theorem walk_edits_every_outer_candidate_witness:
  "edited isImportDecl (Inspect isImportDecl (appendSpec (import_of ''store/internal/auth'')) two_imports)
     = [GenDecl IMPORT [import_of ''fmt'', import_of ''store/internal/auth''],
        GenDecl IMPORT [import_of ''os'', import_of ''store/internal/auth'']]
   \<and> outside isImportDecl (Inspect isImportDecl (appendSpec (import_of ''store/internal/auth'')) two_imports)
     = File ''main'' [hole, hole]
   \<and> edited isCoreNew (Inspect isCoreNew (appendArg (Ident ''m'')) nested_calls)
     = [core_New [core_New [], Ident ''m'']]
   \<and> Inspect isCoreNew (appendArg (Ident ''m'')) nested_calls
     = Other ''ExprStmt'' [core_New [core_New [], Ident ''m'']]"
  using walk_edits_every_outer_candidate
    [where s = "import_of ''store/internal/auth''" and n = two_imports
       and e = "Ident ''x''" and a = "Ident ''m''"]
    walk_edits_every_outer_candidate
    [where s = "import_of ''store/internal/auth''" and n = nested_calls
       and e = "Ident ''x''" and a = "Ident ''m''"]
  by (simp add: node_defs two_imports_def nested_calls_def edited_def outside_def)

section \<open>A missing anchor (C1)\<close>

text \<open>
  C1, as stated: when the document holds no \<^verbatim>\<open>core.New\<close> call, \<^verbatim>\<open>addModuleToAppMain\<close>
  fails with a not-found error and the file is left unchanged. It is not so: the run
  has no such error; on a file with an import group and no call it returns nil and has
  rewritten the file with the new import.
\<close>

theorem missing_call_is_written_anyway:
  "first_match isCoreNew nocall_tree = None
   \<and> ParseFile lib0 (files (on_disk ''shop_main.go'' nocall_src)) ''shop_main.go''
       = Inr ((), nocall_tree)
   \<and> addModuleToAppMain lib0 ''shop_main.go'' ''store'' ''shop'' ''orders''
         (on_disk ''shop_main.go'' nocall_src)
       = (None, \<lparr>files = [''shop_main.go'' \<mapsto> nocall_out],
                 writes = [(''shop_main.go'', nocall_out)]\<rparr>)
   \<and> nocall_out \<noteq> nocall_src"
  by (simp add: run_defs walk_defs node_defs tree_defs text_defs first_match_def preorder_def)

text \<open>
  C1, amended: a missing anchor is not an error. When the parsed document holds no
  \<^verbatim>\<open>core.New\<close> call, the call walk of \<^verbatim>\<open>addModuleToAppMain\<close> changes nothing and the
  run goes on with the tree as the import walk left it: it returns the printer's error
  with the world untouched when the printer fails, and otherwise calls \<^verbatim>\<open>os.WriteFile\<close>
  with the print of that tree and returns what that call returns. Likewise
  \<^verbatim>\<open>addAppToInternalMain\<close> when the document holds no map literal keyed by string.
\<close>

theorem missing_anchor_is_no_error:
  assumes "ParseFile lib (files w) path = Inr (fset, node)"
  shows "(first_match isCoreNew node = None \<longrightarrow>
            addModuleToAppMain lib path projectName appName moduleName w =
              (case format_Node lib fset (moduleImportWalk projectName appName moduleName node) of
                 Inl err \<Rightarrow> (Some err, w)
               | Inr buf \<Rightarrow> os_WriteFile lib path buf w))
       \<and> (first_match isStringMapLit node = None \<longrightarrow>
            addAppToInternalMain lib path projectName appName w =
              (case format_Node lib fset (appImportWalk projectName appName node) of
                 Inl err \<Rightarrow> (Some err, w)
               | Inr buf \<Rightarrow> os_WriteFile lib path buf w))"
proof (intro conjI impI)
  assume "first_match isCoreNew node = None"
  then have "first_match isCoreNew (moduleImportWalk projectName appName moduleName node) = None"
    unfolding moduleImportWalk_def moduleImport_def by (simp only: first_match_after_import)
  then have "addModule_walks (Title lib) projectName appName moduleName node
               = moduleImportWalk projectName appName moduleName node"
    unfolding addModule_walks_def moduleCallWalk_def by (rule first_match_None_Inspect)
  then show "addModuleToAppMain lib path projectName appName moduleName w =
      (case format_Node lib fset (moduleImportWalk projectName appName moduleName node) of
         Inl err \<Rightarrow> (Some err, w)
       | Inr buf \<Rightarrow> os_WriteFile lib path buf w)"
    using assms by (simp add: addModuleToAppMain_def)
next
  assume "first_match isStringMapLit node = None"
  then have "first_match isStringMapLit (appImportWalk projectName appName node) = None"
    unfolding appImportWalk_def appImport_def by (simp only: first_match_after_import)
  then have "addApp_walks projectName appName node = appImportWalk projectName appName node"
    unfolding addApp_walks_def appEntryWalk_def by (rule first_match_None_Inspect)
  then show "addAppToInternalMain lib path projectName appName w =
      (case format_Node lib fset (appImportWalk projectName appName node) of
         Inl err \<Rightarrow> (Some err, w)
       | Inr buf \<Rightarrow> os_WriteFile lib path buf w)"
    using assms by (simp add: addAppToInternalMain_def)
qed

theorem missing_anchor_is_no_error_witness:
  "ParseFile lib0 (files (on_disk ''shop_main.go'' nocall_src)) ''shop_main.go''
     = Inr ((), nocall_tree)
   \<and> first_match isCoreNew nocall_tree = None
   \<and> moduleImportWalk ''store'' ''shop'' ''orders'' nocall_tree = nocall_after
   \<and> format_Node lib0 () nocall_after = Inr nocall_out
   \<and> addModuleToAppMain lib0 ''shop_main.go'' ''store'' ''shop'' ''orders''
         (on_disk ''shop_main.go'' nocall_src)
       = os_WriteFile lib0 ''shop_main.go'' nocall_out (on_disk ''shop_main.go'' nocall_src)"
proof -
  have p: "ParseFile lib0 (files (on_disk ''shop_main.go'' nocall_src)) ''shop_main.go''
             = Inr ((), nocall_tree)"
    by (simp add: run_defs text_defs)
  have n: "first_match isCoreNew nocall_tree = None"
    by (simp add: first_match_def preorder_def tree_defs node_defs)
  have i: "moduleImportWalk ''store'' ''shop'' ''orders'' nocall_tree = nocall_after"
    by (simp add: walk_defs tree_defs node_defs)
  have f: "format_Node lib0 () nocall_after = Inr nocall_out"
    by (simp add: run_defs tree_defs node_defs)
  show ?thesis
    using p n i f
      missing_anchor_is_no_error [OF p, where projectName = "''store''" and appName = "''shop''"
         and moduleName = "''orders''"]
    by simp
qed

section \<open>A parse error (C6)\<close>

text \<open>
  C6: when the parser reports an error for the file, the run returns that error (what
  \<^verbatim>\<open>parser.ParseFile\<close> answered, position and message included), no walk and no print
  takes place, and \<^verbatim>\<open>os.WriteFile\<close> is not called: the world is the one before the run.
\<close>

theorem parse_error_stops_the_run:
  assumes "ParseFile lib (files w) path = Inl err"
  shows "addAppToInternalMain lib path projectName appName w = (Some err, w)
       \<and> addModuleToAppMain lib path projectName appName moduleName w = (Some err, w)"
  using assms by (simp add: addAppToInternalMain_def addModuleToAppMain_def)

theorem parse_error_stops_the_run_witness:
  "ParseFile lib0 (files (on_disk ''shop_main.go'' broken_src)) ''shop_main.go''
     = Inl (ParseError 1 ''syntax error'')
   \<and> addAppToInternalMain lib0 ''shop_main.go'' ''store'' ''shop''
         (on_disk ''shop_main.go'' broken_src)
       = (Some (ParseError 1 ''syntax error''), on_disk ''shop_main.go'' broken_src)
   \<and> addModuleToAppMain lib0 ''shop_main.go'' ''store'' ''shop'' ''orders''
         (on_disk ''shop_main.go'' broken_src)
       = (Some (ParseError 1 ''syntax error''), on_disk ''shop_main.go'' broken_src)"
proof -
  have p: "ParseFile lib0 (files (on_disk ''shop_main.go'' broken_src)) ''shop_main.go''
             = Inl (ParseError 1 ''syntax error'')"
    by (simp add: run_defs text_defs broken_src_def)
  show ?thesis
    using p parse_error_stops_the_run [OF p, where projectName = "''store''" and appName = "''shop''"
         and moduleName = "''orders''"]
    by simp
qed

section \<open>The edits of one run (C7)\<close>

text \<open>
  C7, as stated: a run mutates the document by exactly one Mutator call between parse and
  print. It is not so: each run walks the tree twice. On a file with both anchors the
  import walk changes the parsed tree, the call walk changes it again, and the text the
  run writes is the print of the tree with both edits.
\<close>

theorem run_applies_two_edits:
  "ParseFile lib1 (files (on_disk ''shop_main.go'' shop_src)) ''shop_main.go''
     = Inr ((), shop_tree)
   \<and> moduleImportWalk ''store'' ''shop'' ''orders'' shop_tree \<noteq> shop_tree
   \<and> addModule_walks (Title lib1) ''store'' ''shop'' ''orders'' shop_tree
       \<noteq> moduleImportWalk ''store'' ''shop'' ''orders'' shop_tree
   \<and> addModule_walks (Title lib1) ''store'' ''shop'' ''orders'' shop_tree = shop_after
   \<and> format_Node lib1 () shop_after = Inr shop_out
   \<and> format_Node lib1 () shop_tree = Inl (FormatError ''no text'')
   \<and> addModuleToAppMain lib1 ''shop_main.go'' ''store'' ''shop'' ''orders''
         (on_disk ''shop_main.go'' shop_src)
       = (None, \<lparr>files = [''shop_main.go'' \<mapsto> shop_out],
                 writes = [(''shop_main.go'', shop_out)]\<rparr>)"
  by (simp add: addModuleToAppMain_def os_WriteFile_def lib1_def table_lib_def on_disk_def
        walk_defs node_defs shop_tree_def shop_after_def shop_src_def shop_out_def
        unlines_def tab_def)

text \<open>
  C7, amended: between parse and print every run applies two walks to the same parsed
  document: the tree it hands to the printer is the map-entry walk
  (\<^verbatim>\<open>addAppToInternalMain\<close>) or the call-argument walk (\<^verbatim>\<open>addModuleToAppMain\<close>) of the
  import walk of the parsed tree. When the document holds both anchors, each of the two
  walks changes the tree.
\<close>

theorem both_walks_change_the_tree:
  assumes "ParseFile lib (files w) path = Inr (fset, node)"
  shows "addModuleToAppMain lib path projectName appName moduleName w =
           (case format_Node lib fset
                   (moduleCallWalk (Title lib) moduleName
                      (moduleImportWalk projectName appName moduleName node)) of
              Inl err \<Rightarrow> (Some err, w)
            | Inr buf \<Rightarrow> os_WriteFile lib path buf w)
       \<and> addAppToInternalMain lib path projectName appName w =
           (case format_Node lib fset
                   (appEntryWalk appName (appImportWalk projectName appName node)) of
              Inl err \<Rightarrow> (Some err, w)
            | Inr buf \<Rightarrow> os_WriteFile lib path buf w)
       \<and> (first_match isImportDecl node \<noteq> None \<and> first_match isCoreNew node \<noteq> None \<longrightarrow>
            moduleImportWalk projectName appName moduleName node \<noteq> node
          \<and> moduleCallWalk (Title lib) moduleName
               (moduleImportWalk projectName appName moduleName node)
              \<noteq> moduleImportWalk projectName appName moduleName node)
       \<and> (first_match isImportDecl node \<noteq> None \<and> first_match isStringMapLit node \<noteq> None \<longrightarrow>
            appImportWalk projectName appName node \<noteq> node
          \<and> appEntryWalk appName (appImportWalk projectName appName node)
              \<noteq> appImportWalk projectName appName node)"
proof (intro conjI impI)
  show "addModuleToAppMain lib path projectName appName moduleName w =
           (case format_Node lib fset
                   (moduleCallWalk (Title lib) moduleName
                      (moduleImportWalk projectName appName moduleName node)) of
              Inl err \<Rightarrow> (Some err, w)
            | Inr buf \<Rightarrow> os_WriteFile lib path buf w)"
    using assms by (simp add: addModuleToAppMain_def addModule_walks_def)
  show "addAppToInternalMain lib path projectName appName w =
           (case format_Node lib fset
                   (appEntryWalk appName (appImportWalk projectName appName node)) of
              Inl err \<Rightarrow> (Some err, w)
            | Inr buf \<Rightarrow> os_WriteFile lib path buf w)"
    using assms by (simp add: addAppToInternalMain_def addApp_walks_def)
next
  assume "first_match isImportDecl node \<noteq> None \<and> first_match isCoreNew node \<noteq> None"
  then have i: "first_match isImportDecl node \<noteq> None"
    and c: "first_match isCoreNew node \<noteq> None"
    by simp_all
  show "moduleImportWalk projectName appName moduleName node \<noteq> node"
    unfolding moduleImportWalk_def using i by (rule walks_change(1))
  have "first_match isCoreNew (moduleImportWalk projectName appName moduleName node) \<noteq> None"
    using c unfolding moduleImportWalk_def moduleImport_def
    by (simp add: first_match_after_import del: Inspect.simps)
  then show "moduleCallWalk (Title lib) moduleName
               (moduleImportWalk projectName appName moduleName node)
              \<noteq> moduleImportWalk projectName appName moduleName node"
    unfolding moduleCallWalk_def by (rule walks_change(3))
next
  assume "first_match isImportDecl node \<noteq> None \<and> first_match isStringMapLit node \<noteq> None"
  then have i: "first_match isImportDecl node \<noteq> None"
    and m: "first_match isStringMapLit node \<noteq> None"
    by simp_all
  show "appImportWalk projectName appName node \<noteq> node"
    unfolding appImportWalk_def using i by (rule walks_change(1))
  have "first_match isStringMapLit (appImportWalk projectName appName node) \<noteq> None"
    using m unfolding appImportWalk_def appImport_def
    by (simp add: first_match_after_import del: Inspect.simps)
  then show "appEntryWalk appName (appImportWalk projectName appName node)
              \<noteq> appImportWalk projectName appName node"
    unfolding appEntryWalk_def by (rule walks_change(2))
qed

theorem both_walks_change_the_tree_witness:
  "ParseFile lib0 (files (on_disk ''main.go'' apps_src)) ''main.go'' = Inr ((), apps_tree)
   \<and> first_match isImportDecl apps_tree \<noteq> None
   \<and> first_match isStringMapLit apps_tree \<noteq> None
   \<and> appImportWalk ''store'' ''auth'' apps_tree \<noteq> apps_tree
   \<and> appEntryWalk ''auth'' (appImportWalk ''store'' ''auth'' apps_tree)
       \<noteq> appImportWalk ''store'' ''auth'' apps_tree
   \<and> appEntryWalk ''auth'' (appImportWalk ''store'' ''auth'' apps_tree) = apps_after
   \<and> addAppToInternalMain lib0 ''main.go'' ''store'' ''auth'' (on_disk ''main.go'' apps_src)
       = (case format_Node lib0 () apps_after of
            Inl err \<Rightarrow> (Some err, on_disk ''main.go'' apps_src)
          | Inr buf \<Rightarrow> os_WriteFile lib0 ''main.go'' buf (on_disk ''main.go'' apps_src))"
proof -
  have p: "ParseFile lib0 (files (on_disk ''main.go'' apps_src)) ''main.go''
             = Inr ((), apps_tree)"
    by (simp add: run_defs text_defs)
  have i: "first_match isImportDecl apps_tree \<noteq> None"
    by (simp add: first_match_def preorder_def tree_defs node_defs)
  have m: "first_match isStringMapLit apps_tree \<noteq> None"
    by (simp add: first_match_def preorder_def tree_defs node_defs)
  have a: "appEntryWalk ''auth'' (appImportWalk ''store'' ''auth'' apps_tree) = apps_after"
    by (simp add: walk_defs tree_defs node_defs)
  show ?thesis
    using p i m a
      both_walks_change_the_tree
        [OF p, where projectName = "''store''" and appName = "''auth''"
           and moduleName = "''orders''"]
    by simp
qed

section \<open>The write of one run (C10)\<close>

text \<open>
  C10, as stated: a run writes at most once and only after both edits, so the file never
  holds the new import of a run without that run's registry entry or call argument. The
  consequence fails: on a file with an import group and no registry,
  \<^verbatim>\<open>addAppToInternalMain\<close> writes the print of a tree that holds the new import and no
  new entry.
\<close>

theorem import_written_without_entry:
  "addAppToInternalMain lib0 ''main.go'' ''store'' ''auth'' (on_disk ''main.go'' nomap_src)
     = (None, \<lparr>files = [''main.go'' \<mapsto> nomap_out], writes = [(''main.go'', nomap_out)]\<rparr>)
   \<and> addApp_walks ''store'' ''auth'' nomap_tree = nomap_after
   \<and> format_Node lib0 () nomap_after = Inr nomap_out
   \<and> appImport ''store'' ''auth'' \<in> set (preorder nomap_after)
   \<and> newAppEntry ''auth'' \<notin> set (preorder nomap_after)"
  by (simp add: run_defs walk_defs node_defs tree_defs text_defs preorder_def)

text \<open>
  C10, amended: a run calls \<^verbatim>\<open>os.WriteFile\<close> at most once; it either returns an error
  with the world untouched, or makes one call whose data is the print of the tree after
  both walks. When the tree the import walk left holds the anchor of the second walk,
  the tree that is printed holds the new entry (or argument) at the end of that anchor;
  when it holds no such anchor, the second walk adds nothing and the tree that is printed
  is the one the import walk left.
\<close>

theorem one_write_after_both_walks:
  "(case addAppToInternalMain lib path projectName appName w of
      (r, w') \<Rightarrow>
        (r \<noteq> None \<and> w' = w) \<or>
        (\<exists>fset node buf.
           ParseFile lib (files w) path = Inr (fset, node) \<and>
           format_Node lib fset (addApp_walks projectName appName node) = Inr buf \<and>
           (r, w') = os_WriteFile lib path buf w \<and>
           writes w' = writes w @ [(path, buf)]))
   \<and> (case addModuleToAppMain lib path projectName appName moduleName w of
      (r, w') \<Rightarrow>
        (r \<noteq> None \<and> w' = w) \<or>
        (\<exists>fset node buf.
           ParseFile lib (files w) path = Inr (fset, node) \<and>
           format_Node lib fset
             (addModule_walks (Title lib) projectName appName moduleName node) = Inr buf \<and>
           (r, w') = os_WriteFile lib path buf w \<and>
           writes w' = writes w @ [(path, buf)]))
   \<and> (first_match isStringMapLit (appImportWalk projectName appName tree)
         = Some (CompositeLit t elts) \<longrightarrow>
       first_match isStringMapLit (addApp_walks projectName appName tree)
         = Some (CompositeLit t (elts @ [newAppEntry appName])))
   \<and> (first_match isCoreNew (moduleImportWalk projectName appName moduleName tree)
         = Some (CallExpr fn args) \<longrightarrow>
       first_match isCoreNew (addModule_walks title projectName appName moduleName tree)
         = Some (CallExpr fn (args @ [newModuleEntry title moduleName])))
   \<and> (first_match isStringMapLit (appImportWalk projectName appName tree) = None \<longrightarrow>
       addApp_walks projectName appName tree = appImportWalk projectName appName tree)
   \<and> (first_match isCoreNew (moduleImportWalk projectName appName moduleName tree) = None \<longrightarrow>
       addModule_walks title projectName appName moduleName tree
         = moduleImportWalk projectName appName moduleName tree)"
proof (intro conjI)
  have wr: "os_WriteFile lib p b w = (x, y) \<Longrightarrow> writes y = writes w @ [(p, b)]" for p b x y
    by (auto simp: os_WriteFile_def split: prod.splits)
  show "case addAppToInternalMain lib path projectName appName w of
      (r, w') \<Rightarrow>
        (r \<noteq> None \<and> w' = w) \<or>
        (\<exists>fset node buf.
           ParseFile lib (files w) path = Inr (fset, node) \<and>
           format_Node lib fset (addApp_walks projectName appName node) = Inr buf \<and>
           (r, w') = os_WriteFile lib path buf w \<and>
           writes w' = writes w @ [(path, buf)])"
    by (auto simp: addAppToInternalMain_def split: sum.splits prod.splits dest: wr)
  show "case addModuleToAppMain lib path projectName appName moduleName w of
      (r, w') \<Rightarrow>
        (r \<noteq> None \<and> w' = w) \<or>
        (\<exists>fset node buf.
           ParseFile lib (files w) path = Inr (fset, node) \<and>
           format_Node lib fset
             (addModule_walks (Title lib) projectName appName moduleName node) = Inr buf \<and>
           (r, w') = os_WriteFile lib path buf w \<and>
           writes w' = writes w @ [(path, buf)])"
    by (auto simp: addModuleToAppMain_def split: sum.splits prod.splits dest: wr)
  show "first_match isStringMapLit (appImportWalk projectName appName tree)
         = Some (CompositeLit t elts) \<longrightarrow>
       first_match isStringMapLit (addApp_walks projectName appName tree)
         = Some (CompositeLit t (elts @ [newAppEntry appName]))"
    by (simp add: addApp_walks_def appEntryWalk_def first_match_walks(2) del: Inspect.simps)
  show "first_match isCoreNew (moduleImportWalk projectName appName moduleName tree)
         = Some (CallExpr fn args) \<longrightarrow>
       first_match isCoreNew (addModule_walks title projectName appName moduleName tree)
         = Some (CallExpr fn (args @ [newModuleEntry title moduleName]))"
    by (simp add: addModule_walks_def moduleCallWalk_def first_match_walks(3) del: Inspect.simps)
  show "first_match isStringMapLit (appImportWalk projectName appName tree) = None \<longrightarrow>
       addApp_walks projectName appName tree = appImportWalk projectName appName tree"
    unfolding addApp_walks_def appEntryWalk_def by (blast intro: first_match_None_Inspect)
  show "first_match isCoreNew (moduleImportWalk projectName appName moduleName tree) = None \<longrightarrow>
       addModule_walks title projectName appName moduleName tree
         = moduleImportWalk projectName appName moduleName tree"
    unfolding addModule_walks_def moduleCallWalk_def by (blast intro: first_match_None_Inspect)
qed

theorem one_write_after_both_walks_witness:
  "addAppToInternalMain lib0 ''main.go'' ''store'' ''auth'' (on_disk ''main.go'' apps_src)
     = (None, \<lparr>files = [''main.go'' \<mapsto> apps_out], writes = [(''main.go'', apps_out)]\<rparr>)
   \<and> ParseFile lib0 (files (on_disk ''main.go'' apps_src)) ''main.go'' = Inr ((), apps_tree)
   \<and> format_Node lib0 () (addApp_walks ''store'' ''auth'' apps_tree) = Inr apps_out
   \<and> first_match isStringMapLit (appImportWalk ''store'' ''auth'' apps_tree)
       = Some (string_map ''AppRunner'' [])
   \<and> first_match isStringMapLit (addApp_walks ''store'' ''auth'' apps_tree)
       = Some (string_map ''AppRunner'' [newAppEntry ''auth''])
   \<and> first_match isStringMapLit (appImportWalk ''store'' ''auth'' nomap_tree) = None
   \<and> addApp_walks ''store'' ''auth'' nomap_tree = appImportWalk ''store'' ''auth'' nomap_tree"
  using one_write_after_both_walks
    [where lib = lib0 and path = "''main.go''" and projectName = "''store''"
       and appName = "''auth''" and w = "on_disk ''main.go'' apps_src" and tree = apps_tree
       and t = "Some (MapType (Ident ''string'') (Ident ''AppRunner''))" and elts = "[]"]
    one_write_after_both_walks
    [where lib = lib0 and path = "''main.go''" and projectName = "''store''"
       and appName = "''auth''" and w = "on_disk ''main.go'' apps_src" and tree = nomap_tree]
  by (simp add: run_defs walk_defs node_defs tree_defs text_defs first_match_def preorder_def)

end
